theory Spec2Isabelle
  imports Complex_Main "HOL-Library.AList"
begin

section \<open>Values, documents and payloads\<close>

text \<open>
  The tracked fields and the identifier are \<open>Optional[str]\<close> (models.py): a value is a
  string or Python's \<open>None\<close>. A document (\<open>Dict[str, Any]\<close>) is an association list
  from key to such a value; \<open>d.get(k)\<close> answers \<open>None\<close> both for a missing key and for a
  key stored with \<open>None\<close>. A \<open>datetime\<close> is a count of microseconds on the
  clock's time line.
\<close>

type_synonym field = "string option"
type_synonym doc = "(string \<times> field) list"
type_synonym datetime = int

definition dict_get :: "doc \<Rightarrow> string \<Rightarrow> field" where
  "dict_get d k = (case map_of d k of None \<Rightarrow> None | Some v \<Rightarrow> v)"

text \<open>\<open>str(x)\<close> for a string or \<open>None\<close>.\<close>

fun py_str :: "field \<Rightarrow> string" where
  "py_str None = ''None''"
| "py_str (Some s) = s"

text \<open>models.py: the dataclass \<open>UserUpdate\<close>.\<close>

record UserUpdate =
  user_id :: string
  phone_number :: field
  city :: field
  state :: field
  last_synced :: "datetime option"

datatype error = AiohttpClientError | RetryError | PyMongoError | ValueError

section \<open>api\_client.py: the remote lookup with its retry policy\<close>

text \<open>
  What one HTTP attempt meets inside the \<open>try\<close> block of \<open>get_user_info\<close>: a response
  with a status and (for status 200) the decoded JSON body, an \<open>aiohttp.ClientError\<close>,
  or any other exception (\<open>asyncio.TimeoutError\<close> is one of these: it is no
  \<open>ClientError\<close>).
\<close>

datatype attempt = Status nat "doc option" | ClientError | OtherException

text \<open>
  The body of \<open>get_user_info\<close>: 200 returns the data, 404 returns \<open>None\<close>, any other
  status calls \<open>raise_for_status()\<close>, which raises a \<open>ClientError\<close> from status 400 on and
  otherwise lets the function fall off its end. A \<open>ClientError\<close> is logged and raised
  again; every other exception is logged and answered with \<open>None\<close>.
\<close>

definition request_once :: "attempt \<Rightarrow> error + doc option" where
  "request_once a =
     (case a of
        Status s data \<Rightarrow>
          if s = 200 then Inr data
          else if s = 404 then Inr None
          else if 400 \<le> s then Inl AiohttpClientError
          else Inr None
      | ClientError \<Rightarrow> Inl AiohttpClientError
      | OtherException \<Rightarrow> Inr None)"

text \<open>
  The \<open>@retry\<close> decorator: \<open>stop_after_attempt(n)\<close>, retrying on \<open>ClientError\<close> (and
  \<open>TimeoutError\<close>), raising \<open>RetryError\<close> when the attempts are used up. The argument
  \<open>k\<close> numbers the attempt.
\<close>

fun retry :: "nat \<Rightarrow> (nat \<Rightarrow> attempt) \<Rightarrow> nat \<Rightarrow> error + doc option" where
  "retry 0 responses k = Inl RetryError"
| "retry (Suc n) responses k =
     (case request_once (responses k) of
        Inr r \<Rightarrow> Inr r
      | Inl e \<Rightarrow> if e = AiohttpClientError then retry n responses (Suc k) else Inl e)"

text \<open>\<open>http uid k\<close> is what attempt \<open>k\<close> of the request for \<open>uid\<close> meets.\<close>

definition get_user_info :: "(string \<Rightarrow> nat \<Rightarrow> attempt) \<Rightarrow> string \<Rightarrow> error + doc option" where
  "get_user_info http uid = retry 3 (http uid) 0"

section \<open>sync\_service.py: the per-record unit\<close>

text \<open>\<open>user.get("user_id") or str(user.get("_id"))\<close>: an empty string is falsy.\<close>

definition user_id_of :: "doc \<Rightarrow> string" where
  "user_id_of user =
     (case dict_get user ''user_id'' of
        Some s \<Rightarrow> if s \<noteq> [] then s else py_str (dict_get user ''_id'')
      | None \<Rightarrow> py_str (dict_get user ''_id''))"

text \<open>
  \<open>fetch_and_prepare_update\<close>. \<open>Inl\<close> would be an exception leaving the coroutine; the
  \<open>except Exception\<close> clause turns every failure of the lookup into \<open>return None\<close>.
  \<open>not api_data\<close> holds for \<open>None\<close> and for the empty dictionary. \<open>now\<close> is the reading
  of \<open>datetime.utcnow()\<close>.
\<close>

definition fetch_and_prepare_update ::
  "(string \<Rightarrow> nat \<Rightarrow> attempt) \<Rightarrow> datetime \<Rightarrow> doc \<Rightarrow> error + UserUpdate option" where
  "fetch_and_prepare_update http now user =
     (let uid = user_id_of user in
      case get_user_info http uid of
        Inl e \<Rightarrow> Inr None
      | Inr api_data \<Rightarrow>
          (case api_data of
             None \<Rightarrow> Inr None
           | Some d \<Rightarrow>
               if d = [] then Inr None
               else
                 let current_phone = dict_get user ''phone_number'';
                     current_city = dict_get user ''city'';
                     current_state = dict_get user ''state'';
                     api_phone = dict_get d ''phone_number'';
                     api_city = dict_get d ''city'';
                     api_state = dict_get d ''state''
                 in if current_phone \<noteq> api_phone \<or> current_city \<noteq> api_city
                       \<or> current_state \<noteq> api_state
                    then Inr (Some \<lparr>user_id = uid, phone_number = api_phone, city = api_city,
                                    state = api_state, last_synced = Some now\<rparr>)
                    else Inr None))"

section \<open>database.py: building and writing the update operations\<close>

text \<open>
  Values written to the store: a string, a timestamp or null. An operation is the
  dictionary \<open>{"update_one": {"filter": {"user_id": ...}, "update": {"$set": ...},
  "upsert": False}}\<close>.
\<close>

datatype bson = BNull | BStr string | BDate datetime

type_synonym bson_doc = "(string \<times> bson) list"

fun bson_of_field :: "field \<Rightarrow> bson" where
  "bson_of_field None = BNull"
| "bson_of_field (Some s) = BStr s"

fun bson_of_time :: "datetime option \<Rightarrow> bson" where
  "bson_of_time None = BNull"
| "bson_of_time (Some t) = BDate t"

record update_one =
  filter_user_id :: string
  set_doc :: bson_doc
  upsert :: bool

text \<open>The \<open>$set\<close> document of one payload, in the order the keys are inserted.\<close>

definition update_doc :: "UserUpdate \<Rightarrow> bson_doc" where
  "update_doc u =
     [(''last_synced'', bson_of_time (last_synced u))]
     @ (if phone_number u \<noteq> None then [(''phone_number'', bson_of_field (phone_number u))] else [])
     @ (if city u \<noteq> None then [(''city'', bson_of_field (city u))] else [])
     @ (if state u \<noteq> None then [(''state'', bson_of_field (state u))] else [])"

definition make_operation :: "UserUpdate \<Rightarrow> update_one" where
  "make_operation u = \<lparr>filter_user_id = user_id u, set_doc = update_doc u, upsert = False\<rparr>"

text \<open>
  One \<open>collection.bulk_write(batch, ordered=False)\<close> is a call \<open>bw st batch\<close> of the
  store in state \<open>st\<close>: it raises or reports a modified count, and leaves a new state. The
  loop \<open>for i in range(0, len(operations), batch_size)\<close> with \<open>batch_size > 0\<close>; each
  call is recorded, with its batch and its answer, in the log.
\<close>

type_synonym 'st bulk_write = "'st \<Rightarrow> update_one list \<Rightarrow> (error + nat) \<times> 'st"
type_synonym call = "update_one list \<times> (error + nat)"

function write_batches ::
  "'st bulk_write \<Rightarrow> nat \<Rightarrow> update_one list \<Rightarrow> nat \<Rightarrow> nat \<Rightarrow> 'st \<Rightarrow> call list
     \<Rightarrow> (error + nat) \<times> 'st \<times> call list" where
  "write_batches bw batch_size operations i total_modified st calls =
     (if 0 < batch_size \<and> i < length operations then
        (let batch = take batch_size (drop i operations) in
         case bw st batch of
           (Inl e, st') \<Rightarrow> (Inl e, st', calls @ [(batch, Inl e)])
         | (Inr modified_count, st') \<Rightarrow>
             write_batches bw batch_size operations (i + batch_size)
               (total_modified + modified_count) st' (calls @ [(batch, Inr modified_count)]))
      else (Inr total_modified, st, calls))"
  by pat_completeness auto
termination
  by (relation "measure (\<lambda>(bw, batch_size, operations, i, total_modified, st, calls).
        length operations - i)") auto

declare write_batches.simps [simp del]

text \<open>
  \<open>bulk_update_users\<close>: nothing to do for no updates; \<open>range\<close> raises \<open>ValueError\<close> for a
  step of zero and is empty for a negative step.
\<close>

definition bulk_update_users ::
  "'st bulk_write \<Rightarrow> int \<Rightarrow> UserUpdate list \<Rightarrow> 'st \<Rightarrow> (error + nat) \<times> 'st \<times> call list" where
  "bulk_update_users bw batch_size updates st =
     (if updates = [] then (Inr 0, st, [])
      else
        let operations = map make_operation updates in
        if batch_size = 0 then (Inl ValueError, st, [])
        else if batch_size < 0 then (Inr 0, st, [])
        else write_batches bw (nat batch_size) operations 0 0 st [])"

text \<open>\<open>get_all_users\<close>: the query \<open>find_all\<close> (\<open>collection.find\<close> with \<open>to_list\<close>) raises or gives the documents.\<close>

definition get_all_users :: "('st \<Rightarrow> error + doc list) \<Rightarrow> 'st \<Rightarrow> error + doc list" where
  "get_all_users find_all st = (case find_all st of Inl e \<Rightarrow> Inl e | Inr users \<Rightarrow> Inr users)"

section \<open>sync\_service.py: the run\<close>

record stats =
  total_users :: nat
  users_checked :: nat
  users_updated :: nat
  errors :: nat
  duration_seconds :: int

text \<open>
  The readings of \<open>datetime.utcnow()\<close>: at the start, in the unit of each identifier, and
  when the statistics are computed. The field \<open>duration_seconds\<close> holds the difference
  of the last and the first reading in microseconds (the source divides it by a million,
  in floating point).
\<close>

record clock =
  start_time :: datetime
  unit_time :: "string \<Rightarrow> datetime"
  end_time :: datetime

text \<open>
  \<open>asyncio.gather(*tasks, return_exceptions=True)\<close>: one result per user, in the order
  of the users; a result is the value the unit returned or the exception it raised.
\<close>

definition gather :: "(string \<Rightarrow> nat \<Rightarrow> attempt) \<Rightarrow> clock \<Rightarrow> doc list \<Rightarrow> (error + UserUpdate option) list" where
  "gather http clk users =
     map (\<lambda>user. fetch_and_prepare_update http (unit_time clk (user_id_of user)) user) users"

text \<open>\<open>isinstance(result, UserUpdate)\<close> and \<open>isinstance(r, Exception)\<close>.\<close>

fun is_UserUpdate :: "error + UserUpdate option \<Rightarrow> bool" where
  "is_UserUpdate (Inr (Some u)) = True"
| "is_UserUpdate _ = False"

fun is_Exception :: "error + UserUpdate option \<Rightarrow> bool" where
  "is_Exception (Inl e) = True"
| "is_Exception _ = False"

fun the_update :: "error + UserUpdate option \<Rightarrow> UserUpdate list" where
  "the_update (Inr (Some u)) = [u]"
| "the_update _ = []"

definition updates_of :: "(error + UserUpdate option) list \<Rightarrow> UserUpdate list" where
  "updates_of results = concat (map the_update (filter is_UserUpdate results))"

definition errors_count :: "(error + UserUpdate option) list \<Rightarrow> nat" where
  "errors_count results = length (filter is_Exception results)"

definition checked_count :: "(error + UserUpdate option) list \<Rightarrow> nat" where
  "checked_count results = length (filter (\<lambda>r. \<not> is_Exception r) results)"

text \<open>
  \<open>sync_users\<close>. The result is the statistics or the exception raised again by the outer
  \<open>except\<close>; with it come the store's final state and the log of \<open>bulk_write\<close> calls.
\<close>

definition sync_users ::
  "('st \<Rightarrow> error + doc list) \<Rightarrow> 'st bulk_write \<Rightarrow> int \<Rightarrow> (string \<Rightarrow> nat \<Rightarrow> attempt) \<Rightarrow> clock \<Rightarrow> 'st
     \<Rightarrow> (error + stats) \<times> 'st \<times> call list" where
  "sync_users find_all bw batch_size http clk st =
     (case get_all_users find_all st of
        Inl e \<Rightarrow> (Inl e, st, [])
      | Inr users \<Rightarrow>
          let total = length users;
              results = gather http clk users;
              updates = updates_of results
          in (case (if updates \<noteq> [] then bulk_update_users bw batch_size updates st
                    else (Inr 0, st, [])) of
                (Inl e, st', calls) \<Rightarrow> (Inl e, st', calls)
              | (Inr modified_count, st', calls) \<Rightarrow>
                  (Inr \<lparr>total_users = total,
                        users_checked = checked_count results,
                        users_updated = modified_count,
                        errors = errors_count results,
                        duration_seconds = end_time clk - start_time clk\<rparr>, st', calls)))"

text \<open>
  Modelled from the spec: the store's partial-field update. The store itself (MongoDB's
  \<open>$set\<close>) is no part of the sources; the spec has it touch only the fields present in the
  update document and leave every other field of the record as it was.
\<close>

definition apply_set :: "bson_doc \<Rightarrow> bson_doc \<Rightarrow> bson_doc" where
  "apply_set upd stored = fold (\<lambda>(k, v) d. AList.update k v d) upd stored"


section \<open>Reading the log of calls\<close>

text \<open>The modified count a logged call reported (nothing for a call that raised).\<close>

definition reported :: "call \<Rightarrow> nat" where
  "reported c = (case snd c of Inl e \<Rightarrow> 0 | Inr n \<Rightarrow> n)"


section \<open>Concrete records, responses and stores\<close>

definition user_a :: doc where
  "user_a = [(''_id'', Some ''65a1''), (''user_id'', Some ''A''),
             (''phone_number'', Some ''111''), (''city'', Some ''Pune'')]"

definition user_b :: doc where
  "user_b = [(''_id'', Some ''65a2''), (''user_id'', Some ''B''),
             (''phone_number'', Some ''222'')]"

definition stored_a :: bson_doc where
  "stored_a = [(''user_id'', BStr ''A''), (''phone_number'', BStr ''111''),
               (''city'', BStr ''Pune'')]"

text \<open>The remote answers every request with status 200 and the empty object.\<close>

definition http_empty_object :: "string \<Rightarrow> nat \<Rightarrow> attempt" where
  "http_empty_object uid k = Status 200 (Some [])"

text \<open>The remote answers with a null phone number and an unchanged city.\<close>

definition http_null_phone :: "string \<Rightarrow> nat \<Rightarrow> attempt" where
  "http_null_phone uid k = Status 200 (Some [(''phone_number'', None), (''city'', Some ''Pune'')])"

definition http_404 :: "string \<Rightarrow> nat \<Rightarrow> attempt" where
  "http_404 uid k = Status 404 None"

text \<open>Every attempt for \<open>A\<close> fails in the network; every other record has a new phone number.\<close>

definition http_a_fails :: "string \<Rightarrow> nat \<Rightarrow> attempt" where
  "http_a_fails uid k =
     (if uid = ''A'' then ClientError else Status 200 (Some [(''phone_number'', Some ''999'')]))"

definition clock_0 :: clock where
  "clock_0 = \<lparr>start_time = 0, unit_time = (\<lambda>uid. 7), end_time = 9\<rparr>"

definition payload_null_phone :: UserUpdate where
  "payload_null_phone = \<lparr>user_id = ''A'', phone_number = None, city = Some ''Pune'',
                          state = None, last_synced = Some 7\<rparr>"

definition payload_all_absent :: UserUpdate where
  "payload_all_absent = \<lparr>user_id = ''A'', phone_number = None, city = None,
                          state = None, last_synced = Some 7\<rparr>"

definition payload_b :: UserUpdate where
  "payload_b = \<lparr>user_id = ''B'', phone_number = Some ''999'', city = None,
                 state = None, last_synced = Some 7\<rparr>"

definition find_a_b :: "nat \<Rightarrow> error + doc list" where
  "find_a_b st = Inr [user_a, user_b]"

text \<open>A store that modifies every record it is given and counts the calls it receives.\<close>

definition bw_counts :: "nat bulk_write" where
  "bw_counts st batch = (Inr (length batch), Suc st)"

text \<open>A store whose \<open>bulk_write\<close> raises.\<close>

definition bw_fails :: "nat bulk_write" where
  "bw_fails st batch = (Inl PyMongoError, st)"




section \<open>Facts about the per-record unit\<close>

lemma fetch_and_prepare_update_found:
  assumes "get_user_info http (user_id_of user) = Inr (Some d)" and "d \<noteq> []"
  shows "fetch_and_prepare_update http now user =
           (if dict_get user ''phone_number'' \<noteq> dict_get d ''phone_number''
               \<or> dict_get user ''city'' \<noteq> dict_get d ''city''
               \<or> dict_get user ''state'' \<noteq> dict_get d ''state''
            then Inr (Some \<lparr>user_id = user_id_of user,
                            phone_number = dict_get d ''phone_number'',
                            city = dict_get d ''city'',
                            state = dict_get d ''state'',
                            last_synced = Some now\<rparr>)
            else Inr None)"
  using assms by (simp add: fetch_and_prepare_update_def Let_def)

lemma fetch_and_prepare_update_SomeD:
  assumes "fetch_and_prepare_update http now user = Inr (Some u)"
  shows "\<exists>d. get_user_info http (user_id_of user) = Inr (Some d) \<and> d \<noteq> []
             \<and> u = \<lparr>user_id = user_id_of user,
                            phone_number = dict_get d ''phone_number'',
                            city = dict_get d ''city'',
                            state = dict_get d ''state'',
                            last_synced = Some now\<rparr>"
  using assms
  by (auto simp: fetch_and_prepare_update_def Let_def split: sum.splits option.splits if_splits)

lemma get_user_info_404:
  "http uid 0 = Status 404 body \<Longrightarrow> get_user_info http uid = Inr None"
  by (simp add: get_user_info_def request_once_def numeral_3_eq_3)

lemma get_user_info_http_null_phone:
  "get_user_info http_null_phone uid = Inr (Some [(''phone_number'', None), (''city'', Some ''Pune'')])"
  by (simp add: get_user_info_def http_null_phone_def request_once_def numeral_3_eq_3)

lemma fetch_and_prepare_update_returns:
  "\<exists>r. fetch_and_prepare_update http now user = Inr r"
  by (simp add: fetch_and_prepare_update_def Let_def split: sum.split option.split)

lemma get_user_info_http_empty_object: "get_user_info http_empty_object uid = Inr (Some [])"
  by (simp add: get_user_info_def http_empty_object_def request_once_def numeral_3_eq_3)

lemma get_user_info_http_a_fails:
  "get_user_info http_a_fails uid =
     (if uid = ''A'' then Inl RetryError else Inr (Some [(''phone_number'', Some ''999'')]))"
  by (simp add: get_user_info_def http_a_fails_def request_once_def numeral_3_eq_3)

lemma user_id_of_user_a: "user_id_of user_a = ''A''"
  by (simp add: user_id_of_def dict_get_def user_a_def)

lemma user_id_of_user_b: "user_id_of user_b = ''B''"
  by (simp add: user_id_of_def dict_get_def user_b_def)

section \<open>Facts about the update documents\<close>

lemma map_of_update_doc:
  "map_of (update_doc u) k =
     (if k = ''last_synced'' then Some (bson_of_time (last_synced u))
      else if k = ''phone_number'' \<and> phone_number u \<noteq> None then Some (bson_of_field (phone_number u))
      else if k = ''city'' \<and> city u \<noteq> None then Some (bson_of_field (city u))
      else if k = ''state'' \<and> state u \<noteq> None then Some (bson_of_field (state u))
      else None)"
  by (simp add: update_doc_def)

lemma keys_update_doc:
  "fst ` set (update_doc u) =
     {''last_synced''}
     \<union> (if phone_number u \<noteq> None then {''phone_number''} else {})
     \<union> (if city u \<noteq> None then {''city''} else {})
     \<union> (if state u \<noteq> None then {''state''} else {})"
  by (simp add: update_doc_def)

lemma map_of_apply_set_other:
  "k \<notin> fst ` set upd \<Longrightarrow> map_of (apply_set upd stored) k = map_of stored k"
  unfolding apply_set_def
  by (induction upd arbitrary: stored) (auto simp: update_conv')

section \<open>Facts about the gathered results\<close>

lemma gather_append:
  "gather http clk (us1 @ us2) = gather http clk us1 @ gather http clk us2"
  by (simp add: gather_def)

lemma gather_Cons:
  "gather http clk (user # us) =
     fetch_and_prepare_update http (unit_time clk (user_id_of user)) user # gather http clk us"
  by (simp add: gather_def)

lemma updates_of_append: "updates_of (rs1 @ rs2) = updates_of rs1 @ updates_of rs2"
  by (simp add: updates_of_def)

lemma checked_count_append: "checked_count (rs1 @ rs2) = checked_count rs1 + checked_count rs2"
  by (simp add: checked_count_def)

lemma errors_count_append: "errors_count (rs1 @ rs2) = errors_count rs1 + errors_count rs2"
  by (simp add: errors_count_def)

lemma errors_count_gather: "errors_count (gather http clk users) = 0"
proof -
  have "\<not> is_Exception (fetch_and_prepare_update http now user)" for now user
    using fetch_and_prepare_update_returns [of http now user] by auto
  then show ?thesis
    by (simp add: errors_count_def gather_def)
qed

lemma count_partition: "checked_count results + errors_count results = length results"
  unfolding checked_count_def errors_count_def
  by (simp add: sum_length_filter_compl add.commute)

lemma checked_count_gather: "checked_count (gather http clk users) = length users"
  using count_partition [of "gather http clk users"]
  by (simp add: errors_count_gather) (simp add: gather_def)

lemma gather_a_b_http_a_fails:
  "gather http_a_fails clock_0 [user_a, user_b] = [Inr None, Inr (Some payload_b)]"
  by (simp add: gather_def fetch_and_prepare_update_def user_id_of_user_a user_id_of_user_b
      get_user_info_http_a_fails payload_b_def clock_0_def)
     (simp add: dict_get_def user_b_def)

lemma gather_a_http_404: "gather http_404 clock_0 [user_a] = [Inr None]"
  by (simp add: gather_def fetch_and_prepare_update_def get_user_info_404 http_404_def)

section \<open>Facts about the batch loop\<close>

lemma reported_Inr [simp]: "reported (b, Inr n) = n"
  by (simp add: reported_def)





lemma write_batches_total:
  assumes "\<forall>s b. \<exists>n s'. bw s b = (Inr n, s')"
  shows "\<exists>t st' calls'. write_batches bw bs ops i acc st calls = (Inr t, st', calls')"
  using assms
proof (induction bw bs ops i acc st calls rule: write_batches.induct)
  case (1 bw bs ops i acc st calls)
  show ?case
  proof (cases "0 < bs \<and> i < length ops")
    case False
    then show ?thesis by (auto simp: write_batches.simps [of bw bs ops i])
  next
    case True
    define batch where "batch = take bs (drop i ops)"
    from "1.prems" obtain n st1 where bw: "bw st batch = (Inr n, st1)" by blast
    from "1.IH" [OF True batch_def bw [symmetric] refl "1.prems"] True bw
    show ?thesis
      by (simp add: write_batches.simps [of bw bs ops i] batch_def [symmetric])
  qed
qed

text \<open>With a store that never raises and a chunk size above zero, the call returns.\<close>

lemma bulk_update_users_returns:
  assumes "\<forall>s b. \<exists>n s'. bw s b = (Inr n, s')" and "0 < C"
  shows "\<exists>t st' calls. bulk_update_users bw C updates st = (Inr t, st', calls)"
  using write_batches_total [OF assms(1)] assms(2)
  by (simp add: bulk_update_users_def Let_def)

lemma bulk_update_users_payload_b:
  "bulk_update_users bw_counts 100 [payload_b] 0
     = (Inr 1, 1, [([make_operation payload_b], Inr 1)])"
  by (simp add: bulk_update_users_def write_batches.simps bw_counts_def)

lemma bulk_update_users_bw_fails:
  "bulk_update_users bw_fails 100 [payload_b] 0
     = (Inl PyMongoError, 0, [([make_operation payload_b], Inl PyMongoError)])"
  by (simp add: bulk_update_users_def write_batches.simps bw_fails_def)


section \<open>Facts about the run\<close>

lemma sync_users_listing_ok:
  assumes "get_all_users find_all st = Inr users"
  shows "sync_users find_all bw batch_size http clk st =
     (case (if updates_of (gather http clk users) \<noteq> []
            then bulk_update_users bw batch_size (updates_of (gather http clk users)) st
            else (Inr 0, st, [])) of
        (Inl e, st', calls) \<Rightarrow> (Inl e, st', calls)
      | (Inr modified_count, st', calls) \<Rightarrow>
          (Inr \<lparr>total_users = length users,
                users_checked = checked_count (gather http clk users),
                users_updated = modified_count,
                errors = errors_count (gather http clk users),
                duration_seconds = end_time clk - start_time clk\<rparr>, st', calls))"
  using assms by (simp add: sync_users_def Let_def)

lemma sync_users_statsD:
  assumes "sync_users find_all bw batch_size http clk st = (Inr s, st', calls)"
  shows "\<exists>users. get_all_users find_all st = Inr users
           \<and> total_users s = length users
           \<and> users_checked s = checked_count (gather http clk users)
           \<and> errors s = errors_count (gather http clk users)"
proof (cases "get_all_users find_all st")
  case (Inl e)
  with assms show ?thesis by (simp add: sync_users_def)
next
  case (Inr users)
  from assms show ?thesis
    unfolding sync_users_listing_ok [OF Inr]
    by (auto simp: Inr split: prod.splits sum.splits if_splits)
qed

section \<open>The claims\<close>

subsection \<open>C1: error isolation\<close>

text \<open>
  C1. A run in which the lookup fails terminally for one of two records: the claim has
  \<open>errors = 1\<close> and \<open>users_checked = 1\<close>. Every attempt for record \<open>A\<close> meets a
  \<open>ClientError\<close>, so \<open>get_user_info\<close> raises \<open>RetryError\<close>; record \<open>B\<close> is
  found with a new phone number. The unit of \<open>A\<close> catches the exception and returns
  \<open>None\<close>, which \<open>sync_users\<close> counts as checked: the run reports no error and two
  records checked. Persistence receives the payload of \<open>B\<close> only.
\<close>

theorem error_isolation_failing_input:
  "get_user_info http_a_fails (user_id_of user_a) = Inl RetryError
   \<and> get_user_info http_a_fails (user_id_of user_b) = Inr (Some [(''phone_number'', Some ''999'')])
   \<and> sync_users find_a_b bw_counts 100 http_a_fails clock_0 0
       = (Inr \<lparr>total_users = 2, users_checked = 2, users_updated = 1, errors = 0,
               duration_seconds = 9\<rparr>,
          1, [([make_operation payload_b], Inr 1)])"
proof -
  have listing: "get_all_users find_a_b 0 = Inr [user_a, user_b]"
    by (simp add: get_all_users_def find_a_b_def)
  show ?thesis
    unfolding sync_users_listing_ok [OF listing] gather_a_b_http_a_fails
    by (simp add: get_user_info_http_a_fails user_id_of_user_a user_id_of_user_b updates_of_def
        checked_count_def errors_count_def bulk_update_users_payload_b clock_0_def)
qed

subsection \<open>C2: diff correctness\<close>

text \<open>
  C2, as the code has it. For every stored record and every dictionary of fetched
  attributes the lookup returns, the unit produces a payload if and only if the dictionary
  is not empty and one of \<open>phone_number\<close>, \<open>city\<close>, \<open>state\<close> differs, where two
  absent values are equal; a payload holds the fetched value of every tracked field, so of
  every differing one.
\<close>

theorem diff_correctness:
  assumes "get_user_info http (user_id_of user) = Inr (Some d)"
  shows "((\<exists>u. fetch_and_prepare_update http now user = Inr (Some u)) \<longleftrightarrow>
            (d \<noteq> []
             \<and> (dict_get user ''phone_number'' \<noteq> dict_get d ''phone_number''
                \<or> dict_get user ''city'' \<noteq> dict_get d ''city''
                \<or> dict_get user ''state'' \<noteq> dict_get d ''state'')))
         \<and> (\<forall>u. fetch_and_prepare_update http now user = Inr (Some u) \<longrightarrow>
               phone_number u = dict_get d ''phone_number''
               \<and> city u = dict_get d ''city''
               \<and> state u = dict_get d ''state'')"
proof (cases "d = []")
  case True
  with assms have "fetch_and_prepare_update http now user = Inr None"
    by (simp add: fetch_and_prepare_update_def)
  with True show ?thesis by simp
next
  case False
  show ?thesis
    unfolding fetch_and_prepare_update_found [OF assms False] using False by auto
qed

text \<open>
  The claim as written has a payload whenever a tracked field differs from attributes that
  are present. The remote answers 200 with the empty object: the stored phone number is
  \<open>111\<close>, the fetched one is absent, and the unit returns \<open>None\<close>, since
  \<open>not api_data\<close> holds for the empty dictionary.
\<close>

theorem diff_correctness_counterexample:
  "get_user_info http_empty_object (user_id_of user_a) = Inr (Some [])
   \<and> dict_get user_a ''phone_number'' = Some ''111''
   \<and> dict_get [] ''phone_number'' = None
   \<and> fetch_and_prepare_update http_empty_object 7 user_a = Inr None"
  by (simp add: get_user_info_http_empty_object fetch_and_prepare_update_def dict_get_def
      user_a_def)

text \<open>
  Instances of the theorem: a fetched null phone number with an unchanged city, and the
  empty object.
\<close>

theorem diff_correctness_witness:
  "get_user_info http_null_phone (user_id_of user_a)
     = Inr (Some [(''phone_number'', None), (''city'', Some ''Pune'')])
   \<and> dict_get user_a ''phone_number'' = Some ''111''
   \<and> dict_get [(''phone_number'', None), (''city'', Some ''Pune'')] ''phone_number'' = None
   \<and> (\<exists>u. fetch_and_prepare_update http_null_phone 7 user_a = Inr (Some u)
          \<and> phone_number u = None \<and> city u = Some ''Pune'' \<and> state u = None)
   \<and> get_user_info http_empty_object (user_id_of user_a) = Inr (Some [])
   \<and> fetch_and_prepare_update http_empty_object 7 user_a = Inr None"
proof -
  have h1: "get_user_info http_null_phone (user_id_of user_a)
     = Inr (Some [(''phone_number'', None), (''city'', Some ''Pune'')])"
    by (rule get_user_info_http_null_phone)
  have h0: "get_user_info http_empty_object (user_id_of user_a) = Inr (Some [])"
    by (rule get_user_info_http_empty_object)
  have stored: "dict_get user_a ''phone_number'' = Some ''111''"
    by (simp add: dict_get_def user_a_def)
  have fetched:
    "dict_get [(''phone_number'', None), (''city'', Some ''Pune'')] ''phone_number'' = None"
    "dict_get [(''phone_number'', None), (''city'', Some ''Pune'')] ''city'' = Some ''Pune''"
    "dict_get [(''phone_number'', None), (''city'', Some ''Pune'')] ''state'' = None"
    by (simp_all add: dict_get_def)
  from diff_correctness [OF h1, of 7] stored fetched
  have a: "\<exists>u. fetch_and_prepare_update http_null_phone 7 user_a = Inr (Some u)
          \<and> phone_number u = None \<and> city u = Some ''Pune'' \<and> state u = None"
    by auto
  from diff_correctness [OF h0, of 7]
  have "\<not> (\<exists>u. fetch_and_prepare_update http_empty_object 7 user_a = Inr (Some u))"
    by simp
  with fetch_and_prepare_update_returns [of http_empty_object 7 user_a]
  have b: "fetch_and_prepare_update http_empty_object 7 user_a = Inr None"
    by (cases "fetch_and_prepare_update http_empty_object 7 user_a") auto
  from a b h0 h1 stored fetched show ?thesis by simp
qed

subsection \<open>C3: clearing a field\<close>

text \<open>
  C3, as the code has it. When the stored value of a tracked field is non-absent and the
  fetched value is absent, a payload is produced if and only if the fetched dictionary is
  not empty; the update document built for a produced payload does not mention the field,
  so the update leaves the stored value as it was.
\<close>

theorem clearing_detected_but_not_persisted:
  assumes "get_user_info http (user_id_of user) = Inr (Some d)"
    and "f \<in> {''phone_number'', ''city'', ''state''}"
    and "dict_get user f \<noteq> None" and "dict_get d f = None"
  shows "((\<exists>u. fetch_and_prepare_update http now user = Inr (Some u)) \<longleftrightarrow> d \<noteq> [])
         \<and> (\<forall>u. fetch_and_prepare_update http now user = Inr (Some u) \<longrightarrow>
               map_of (set_doc (make_operation u)) f = None
               \<and> (\<forall>stored. map_of (apply_set (set_doc (make_operation u)) stored) f
                     = map_of stored f))"
proof (cases "d = []")
  case True
  with assms(1) have "fetch_and_prepare_update http now user = Inr None"
    by (simp add: fetch_and_prepare_update_def)
  with True show ?thesis by simp
next
  case False
  let ?u = "\<lparr>user_id = user_id_of user, phone_number = dict_get d ''phone_number'',
             city = dict_get d ''city'', state = dict_get d ''state'',
             last_synced = Some now\<rparr>"
  from assms(2-4) have differs:
    "dict_get user ''phone_number'' \<noteq> dict_get d ''phone_number''
     \<or> dict_get user ''city'' \<noteq> dict_get d ''city''
     \<or> dict_get user ''state'' \<noteq> dict_get d ''state''"
    by auto
  have produced: "fetch_and_prepare_update http now user = Inr (Some ?u)"
    using fetch_and_prepare_update_found [OF assms(1) False, of now] differs by simp
  have untouched: "f \<notin> fst ` set (update_doc ?u)"
    using assms(2,4) by (auto simp: keys_update_doc)
  then have "map_of (update_doc ?u) f = None"
    by (simp add: map_of_eq_None_iff)
  moreover have "\<forall>stored. map_of (apply_set (update_doc ?u) stored) f = map_of stored f"
    using untouched by (simp add: map_of_apply_set_other)
  ultimately show ?thesis
    using produced False by (simp add: make_operation_def)
qed

text \<open>
  The claim as written has a payload produced and the update set the field to absent.
  Stored phone number \<open>111\<close>, fetched phone number null: the payload is produced, its
  update document sets \<open>last_synced\<close> and \<open>city\<close> only, and the stored phone number
  is still \<open>111\<close> after the update. Same record, the remote answering with the empty
  object: the fetched phone number is absent and no payload is produced at all.
\<close>

theorem field_clearing_counterexample:
  "dict_get user_a ''phone_number'' = Some ''111''
   \<and> get_user_info http_null_phone (user_id_of user_a)
        = Inr (Some [(''phone_number'', None), (''city'', Some ''Pune'')])
   \<and> dict_get [(''phone_number'', None), (''city'', Some ''Pune'')] ''phone_number'' = None
   \<and> fetch_and_prepare_update http_null_phone 7 user_a = Inr (Some payload_null_phone)
   \<and> set_doc (make_operation payload_null_phone)
        = [(''last_synced'', BDate 7), (''city'', BStr ''Pune'')]
   \<and> map_of (apply_set (set_doc (make_operation payload_null_phone)) stored_a) ''phone_number''
        = Some (BStr ''111'')
   \<and> get_user_info http_empty_object (user_id_of user_a) = Inr (Some [])
   \<and> dict_get [] ''phone_number'' = None
   \<and> fetch_and_prepare_update http_empty_object 7 user_a = Inr None"
  by (simp add: get_user_info_http_null_phone get_user_info_http_empty_object
      fetch_and_prepare_update_def dict_get_def
      user_a_def user_id_of_def payload_null_phone_def make_operation_def update_doc_def
      apply_set_def stored_a_def)

text \<open>
  Instances of the theorem at the same record, for both answers of the remote.
\<close>

theorem clearing_detected_but_not_persisted_witness:
  "(\<exists>u. fetch_and_prepare_update http_null_phone 7 user_a = Inr (Some u)
        \<and> map_of (set_doc (make_operation u)) ''phone_number'' = None
        \<and> map_of (apply_set (set_doc (make_operation u)) stored_a) ''phone_number''
            = Some (BStr ''111''))
   \<and> fetch_and_prepare_update http_empty_object 7 user_a = Inr None"
proof -
  have h1: "get_user_info http_null_phone (user_id_of user_a)
        = Inr (Some [(''phone_number'', None), (''city'', Some ''Pune'')])"
    by (rule get_user_info_http_null_phone)
  have h0: "get_user_info http_empty_object (user_id_of user_a) = Inr (Some [])"
    by (rule get_user_info_http_empty_object)
  have h3: "''phone_number'' \<in> {''phone_number'', ''city'', ''state''}" by simp
  have h4: "dict_get user_a ''phone_number'' \<noteq> None"
    by (simp add: dict_get_def user_a_def)
  have h5: "dict_get [(''phone_number'', None), (''city'', Some ''Pune'')] ''phone_number'' = None"
    by (simp add: dict_get_def)
  have h6: "dict_get [] ''phone_number'' = None" by (simp add: dict_get_def)
  from clearing_detected_but_not_persisted [OF h1 h3 h4 h5, of 7]
  obtain u where u: "fetch_and_prepare_update http_null_phone 7 user_a = Inr (Some u)"
     "map_of (set_doc (make_operation u)) ''phone_number'' = None"
     "\<forall>stored. map_of (apply_set (set_doc (make_operation u)) stored) ''phone_number''
        = map_of stored ''phone_number''"
    by auto
  have s: "map_of stored_a ''phone_number'' = Some (BStr ''111'')"
    by (simp add: stored_a_def)
  from clearing_detected_but_not_persisted [OF h0 h3 h4 h6, of 7]
  have "\<not> (\<exists>u. fetch_and_prepare_update http_empty_object 7 user_a = Inr (Some u))"
    by simp
  with fetch_and_prepare_update_returns [of http_empty_object 7 user_a]
  have b: "fetch_and_prepare_update http_empty_object 7 user_a = Inr None"
    by (cases "fetch_and_prepare_update http_empty_object 7 user_a") auto
  from u s b show ?thesis by auto
qed

subsection \<open>C4: batch chunking\<close>



subsection \<open>C5: checked and errors are complementary\<close>

text \<open>
  C5, as the code has it. In the statistics of every run that returns them,
  \<open>users_checked + errors = total_users\<close>.
\<close>

theorem checked_plus_errors_is_total:
  assumes "sync_users find_all bw batch_size http clk st = (Inr s, st', calls)"
  shows "users_checked s + errors s = total_users s"
proof -
  from sync_users_statsD [OF assms] obtain users where
    "total_users s = length users"
    "users_checked s = checked_count (gather http clk users)"
    "errors s = errors_count (gather http clk users)"
    by blast
  then show ?thesis
    using count_partition [of "gather http clk users"] by (simp add: gather_def)
qed

text \<open>
  The claim as written has a list of results on which the two counters fail to add up to
  its length. There is none: a result is an exception or it is not.
\<close>

theorem checked_and_errors_complementary_counterexample:
  "\<not> (\<exists>results. checked_count results + errors_count results \<noteq> length results)"
  by (simp add: count_partition)

text \<open>
  An instance of the theorem: the run over records \<open>A\<close> and \<open>B\<close>.
\<close>

theorem checked_plus_errors_is_total_witness:
  "sync_users find_a_b bw_counts 100 http_a_fails clock_0 0
     = (Inr \<lparr>total_users = 2, users_checked = 2, users_updated = 1, errors = 0,
             duration_seconds = 9\<rparr>, 1, [([make_operation payload_b], Inr 1)])
   \<and> (2::nat) + 0 = 2"
proof -
  have listing: "get_all_users find_a_b 0 = Inr [user_a, user_b]"
    by (simp add: get_all_users_def find_a_b_def)
  have run: "sync_users find_a_b bw_counts 100 http_a_fails clock_0 0
     = (Inr \<lparr>total_users = 2, users_checked = 2, users_updated = 1, errors = 0,
             duration_seconds = 9\<rparr>, 1, [([make_operation payload_b], Inr 1)])"
    unfolding sync_users_listing_ok [OF listing] gather_a_b_http_a_fails
    by (simp add: updates_of_def checked_count_def errors_count_def
        bulk_update_users_payload_b clock_0_def)
  from checked_plus_errors_is_total [OF run] run show ?thesis by simp
qed

subsection \<open>C7: not found is not an error\<close>

text \<open>
  C7. When the lookup reports not-found (returns \<open>None\<close>), the unit returns
  \<open>None\<close>: within any run the record adds one to the checked count, nothing to the
  error count and no payload to the updates.
\<close>

theorem not_found_is_not_an_error:
  assumes "get_user_info http (user_id_of user) = Inr None"
  shows "fetch_and_prepare_update http now user = Inr None
         \<and> checked_count (gather http clk (us1 @ user # us2))
             = checked_count (gather http clk us1) + 1 + checked_count (gather http clk us2)
         \<and> errors_count (gather http clk (us1 @ user # us2))
             = errors_count (gather http clk us1) + errors_count (gather http clk us2)
         \<and> updates_of (gather http clk (us1 @ user # us2))
             = updates_of (gather http clk us1) @ updates_of (gather http clk us2)"
proof -
  have unit: "fetch_and_prepare_update http t user = Inr None" for t
    using assms by (simp add: fetch_and_prepare_update_def)
  have run: "gather http clk (us1 @ user # us2)
               = gather http clk us1 @ [Inr None] @ gather http clk us2"
    by (simp add: gather_append gather_Cons unit)
  show ?thesis
    unfolding run updates_of_append checked_count_append errors_count_append
    by (simp add: unit updates_of_def checked_count_def errors_count_def)
qed

text \<open>
  An instance: the remote answers 404.
\<close>

theorem not_found_is_not_an_error_witness:
  "get_user_info http_404 (user_id_of user_a) = Inr None
   \<and> fetch_and_prepare_update http_404 7 user_a = Inr None
   \<and> checked_count (gather http_404 clock_0 ([] @ user_a # [])) = 1
   \<and> errors_count (gather http_404 clock_0 ([] @ user_a # [])) = 0
   \<and> updates_of (gather http_404 clock_0 ([] @ user_a # [])) = []"
proof -
  have h: "get_user_info http_404 (user_id_of user_a) = Inr None"
    by (simp add: get_user_info_404 http_404_def)
  show ?thesis
    using h not_found_is_not_an_error [OF h, of 7 clock_0 "[]" "[]"]
    by (simp add: gather_def checked_count_def errors_count_def updates_of_def)
qed

subsection \<open>C8: a persistence fault is fatal\<close>

text \<open>
  C8. After a successful listing: when \<open>bulk_update_users\<close> raises, \<open>sync_users\<close>
  raises the same error and returns no statistics; when it returns, or when there is nothing
  to update, \<open>sync_users\<close> returns the complete statistics.
\<close>

theorem persistence_fault_is_fatal:
  assumes "get_all_users find_all st = Inr users"
  shows "(\<forall>e st' calls.
            updates_of (gather http clk users) \<noteq> []
            \<and> bulk_update_users bw batch_size (updates_of (gather http clk users)) st
                 = (Inl e, st', calls)
            \<longrightarrow> sync_users find_all bw batch_size http clk st = (Inl e, st', calls))
         \<and> (\<forall>n st' calls.
            updates_of (gather http clk users) \<noteq> []
            \<and> bulk_update_users bw batch_size (updates_of (gather http clk users)) st
                 = (Inr n, st', calls)
            \<longrightarrow> sync_users find_all bw batch_size http clk st
                  = (Inr \<lparr>total_users = length users,
                          users_checked = checked_count (gather http clk users),
                          users_updated = n,
                          errors = errors_count (gather http clk users),
                          duration_seconds = end_time clk - start_time clk\<rparr>, st', calls))
         \<and> (updates_of (gather http clk users) = []
            \<longrightarrow> sync_users find_all bw batch_size http clk st
                  = (Inr \<lparr>total_users = length users,
                          users_checked = checked_count (gather http clk users),
                          users_updated = 0,
                          errors = errors_count (gather http clk users),
                          duration_seconds = end_time clk - start_time clk\<rparr>, st, []))"
  unfolding sync_users_listing_ok [OF assms] by simp

text \<open>
  Instances: a store that raises, a store that writes, and a run with nothing to update.
\<close>

theorem persistence_fault_is_fatal_witness:
  "sync_users find_a_b bw_fails 100 http_a_fails clock_0 0
     = (Inl PyMongoError, 0, [([make_operation payload_b], Inl PyMongoError)])
   \<and> sync_users find_a_b bw_counts 100 http_a_fails clock_0 0
     = (Inr \<lparr>total_users = 2, users_checked = 2, users_updated = 1, errors = 0,
             duration_seconds = 9\<rparr>, 1, [([make_operation payload_b], Inr 1)])
   \<and> sync_users (\<lambda>st. Inr [user_a]) bw_fails 100 http_404 clock_0 (0::nat)
     = (Inr \<lparr>total_users = 1, users_checked = 1, users_updated = 0, errors = 0,
             duration_seconds = 9\<rparr>, 0, [])"
proof -
  have l2: "get_all_users find_a_b 0 = Inr [user_a, user_b]"
    by (simp add: get_all_users_def find_a_b_def)
  have l1: "get_all_users (\<lambda>st. Inr [user_a]) (0::nat) = Inr [user_a]"
    by (simp add: get_all_users_def)
  have u2: "updates_of (gather http_a_fails clock_0 [user_a, user_b]) = [payload_b]"
    by (simp add: gather_a_b_http_a_fails updates_of_def)
  have u1: "updates_of (gather http_404 clock_0 [user_a]) = []"
    by (simp add: gather_a_http_404 updates_of_def)
  have c2: "checked_count (gather http_a_fails clock_0 [user_a, user_b]) = 2"
    "errors_count (gather http_a_fails clock_0 [user_a, user_b]) = 0"
    by (simp_all add: gather_a_b_http_a_fails checked_count_def errors_count_def)
  have c1: "checked_count (gather http_404 clock_0 [user_a]) = 1"
    "errors_count (gather http_404 clock_0 [user_a]) = 0"
    by (simp_all add: gather_a_http_404 checked_count_def errors_count_def)
  have t: "end_time clock_0 - start_time clock_0 = 9" by (simp add: clock_0_def)
  from persistence_fault_is_fatal [OF l2, of http_a_fails clock_0 bw_fails 100]
  have a: "sync_users find_a_b bw_fails 100 http_a_fails clock_0 0
     = (Inl PyMongoError, 0, [([make_operation payload_b], Inl PyMongoError)])"
    by (simp add: u2 bulk_update_users_bw_fails)
  from persistence_fault_is_fatal [OF l2, of http_a_fails clock_0 bw_counts 100]
  have b: "sync_users find_a_b bw_counts 100 http_a_fails clock_0 0
     = (Inr \<lparr>total_users = 2, users_checked = 2, users_updated = 1, errors = 0,
             duration_seconds = 9\<rparr>, 1, [([make_operation payload_b], Inr 1)])"
    by (simp add: u2 c2 t bulk_update_users_payload_b)
  from persistence_fault_is_fatal [OF l1, of http_404 clock_0 bw_fails 100]
  have c: "sync_users (\<lambda>st. Inr [user_a]) bw_fails 100 http_404 clock_0 (0::nat)
     = (Inr \<lparr>total_users = 1, users_checked = 1, users_updated = 0, errors = 0,
             duration_seconds = 9\<rparr>, 0, [])"
    by (simp add: u1 c1 t)
  from a b c show ?thesis by simp
qed

subsection \<open>C9: the payload carries every fetched field\<close>

text \<open>
  C9. A payload produced by the unit carries the fetched value of each of the three tracked
  fields, whether it differs from the stored one or not, and the update document built
  from it sets every tracked field whose fetched value is not absent.
\<close>

theorem payload_carries_all_fetched_fields:
  assumes "fetch_and_prepare_update http now user = Inr (Some u)"
  shows "\<exists>d. get_user_info http (user_id_of user) = Inr (Some d)
           \<and> phone_number u = dict_get d ''phone_number''
           \<and> city u = dict_get d ''city''
           \<and> state u = dict_get d ''state''
           \<and> (\<forall>f \<in> {''phone_number'', ''city'', ''state''}. \<forall>v.
                 dict_get d f = Some v \<longrightarrow>
                 map_of (set_doc (make_operation u)) f = Some (BStr v))"
proof -
  from fetch_and_prepare_update_SomeD [OF assms] obtain d where
    d: "get_user_info http (user_id_of user) = Inr (Some d)"
    and u: "u = \<lparr>user_id = user_id_of user, phone_number = dict_get d ''phone_number'',
                 city = dict_get d ''city'', state = dict_get d ''state'',
                 last_synced = Some now\<rparr>"
    by blast
  have "\<forall>f \<in> {''phone_number'', ''city'', ''state''}. \<forall>v.
          dict_get d f = Some v \<longrightarrow> map_of (set_doc (make_operation u)) f = Some (BStr v)"
    by (simp add: make_operation_def map_of_update_doc u)
  with d u show ?thesis by auto
qed

text \<open>
  An instance: the city is the same on both sides and is set all the same.
\<close>

theorem payload_carries_all_fetched_fields_witness:
  "fetch_and_prepare_update http_null_phone 7 user_a = Inr (Some payload_null_phone)
   \<and> dict_get user_a ''city'' = Some ''Pune''
   \<and> city payload_null_phone = Some ''Pune''
   \<and> map_of (set_doc (make_operation payload_null_phone)) ''city'' = Some (BStr ''Pune'')"
proof -
  have h: "fetch_and_prepare_update http_null_phone 7 user_a = Inr (Some payload_null_phone)"
    by (simp add: fetch_and_prepare_update_def get_user_info_http_null_phone dict_get_def
        user_a_def user_id_of_def payload_null_phone_def)
  from payload_carries_all_fetched_fields [OF h] obtain d where
    d: "get_user_info http_null_phone (user_id_of user_a) = Inr (Some d)"
    and c: "city payload_null_phone = dict_get d ''city''"
    and s: "\<forall>f \<in> {''phone_number'', ''city'', ''state''}. \<forall>v.
                 dict_get d f = Some v \<longrightarrow>
                 map_of (set_doc (make_operation payload_null_phone)) f = Some (BStr v)"
    by blast
  have "city payload_null_phone = Some ''Pune''" by (simp add: payload_null_phone_def)
  with c s have "map_of (set_doc (make_operation payload_null_phone)) ''city'' = Some (BStr ''Pune'')"
    by simp
  with h show ?thesis
    by (simp add: dict_get_def user_a_def payload_null_phone_def)
qed

subsection \<open>C10: the frame of an update document\<close>

text \<open>
  C10. The update document of a payload always sets \<open>last_synced\<close>; its other keys
  are exactly the tracked fields whose payload value is not absent. For a payload whose
  tracked fields are all absent it sets \<open>last_synced\<close> alone, and the update leaves every
  other field of a record as it was.
\<close>

theorem update_document_frame:
  "map_of (set_doc (make_operation u)) ''last_synced'' = Some (bson_of_time (last_synced u))
   \<and> fst ` set (set_doc (make_operation u))
       = {''last_synced''}
         \<union> (if phone_number u \<noteq> None then {''phone_number''} else {})
         \<union> (if city u \<noteq> None then {''city''} else {})
         \<union> (if state u \<noteq> None then {''state''} else {})
   \<and> (phone_number u = None \<and> city u = None \<and> state u = None \<longrightarrow>
        set_doc (make_operation u) = [(''last_synced'', bson_of_time (last_synced u))]
        \<and> (\<forall>stored k. k \<noteq> ''last_synced'' \<longrightarrow>
              map_of (apply_set (set_doc (make_operation u)) stored) k = map_of stored k))"
proof -
  have "\<forall>stored k. k \<noteq> ''last_synced'' \<longrightarrow>
          map_of (apply_set [(''last_synced'', bson_of_time (last_synced u))] stored) k
            = map_of stored k"
    by (simp add: map_of_apply_set_other)
  then show ?thesis
    by (simp add: make_operation_def map_of_update_doc keys_update_doc) (simp add: update_doc_def)
qed

text \<open>
  An instance: a payload with no tracked value.
\<close>

theorem update_document_frame_witness:
  "set_doc (make_operation payload_all_absent) = [(''last_synced'', BDate 7)]
   \<and> map_of (apply_set (set_doc (make_operation payload_all_absent)) stored_a) ''phone_number''
       = Some (BStr ''111'')
   \<and> map_of (apply_set (set_doc (make_operation payload_all_absent)) stored_a) ''last_synced''
       = Some (BDate 7)"
  using update_document_frame [of payload_all_absent]
  by (simp add: payload_all_absent_def stored_a_def apply_set_def)

end
